theory Spec2Isabelle
  imports Complex_Main
begin

section \<open>Tensors and errors\<close>

text \<open>
  The environments work on batched one-dimensional torch tensors, one entry per
  environment instance. A boolean tensor is a \<open>bool list\<close>, an integer tensor an
  \<open>int list\<close>. What Python raises is a value of \<open>error\<close>.
\<close>

datatype error =
    ShapeMismatch nat nat
  | ImportError string

text \<open>
  \<^verbatim>\<open>a | b\<close> on two one-dimensional boolean tensors: element-wise when the sizes agree,
  a tensor of size one is broadcast over the other, and any other pair of sizes makes
  torch raise.
\<close>

definition tensor_or :: "bool list \<Rightarrow> bool list \<Rightarrow> error + bool list" where
  "tensor_or xs ys =
     (if length xs = length ys then Inr (map2 (\<or>) xs ys)
      else if length xs = 1 then Inr (map (\<lambda>y. hd xs \<or> y) ys)
      else if length ys = 1 then Inr (map (\<lambda>x. x \<or> hd ys) xs)
      else Inl (ShapeMismatch (length xs) (length ys)))"

text \<open>\<^verbatim>\<open>buf >= bound\<close> of an integer tensor against a Python int.\<close>

definition tensor_ge :: "int list \<Rightarrow> int \<Rightarrow> bool list" where
  "tensor_ge buf bound = map (\<lambda>l. l \<ge> bound) buf"

section \<open>Task configuration: \<open>GoToPositionCfg\<close>\<close>

text \<open>
  Python floats are IEEE doubles; every default below is written as the exact rational
  value of the double the literal denotes. \<open>0.5\<close>, \<open>5.0\<close>, \<open>10.0\<close> and \<open>0.0\<close> are exact,
  \<open>math.pi\<close> is \<open>884279719003555 / 2^48\<close> and \<open>0.01\<close> is \<open>5764607523034235 / 2^59\<close>.
  Comparisons of doubles are exact, so they agree with the comparisons of these reals.
  The reward coefficients and weights of the class take no part in the properties
  below and are left out of the record.
\<close>

definition math_pi :: real where
  "math_pi = 884279719003555 / 281474976710656"

record GoToPositionCfg =
  spawn_min_dist :: real
  spawn_max_dist :: real
  spawn_min_heading_dist :: real
  spawn_max_heading_dist :: real
  spawn_min_lin_vel :: real
  spawn_max_lin_vel :: real
  spawn_min_ang_vel :: real
  spawn_max_ang_vel :: real
  goal_max_dist_from_origin :: real
  position_tolerance :: real
  maximum_robot_distance :: real
  reset_after_n_steps_in_tolerance :: int

definition GoToPositionCfg_default :: GoToPositionCfg where
  "GoToPositionCfg_default =
     \<lparr> spawn_min_dist = 1 / 2,
       spawn_max_dist = 5,
       spawn_min_heading_dist = 0,
       spawn_max_heading_dist = math_pi,
       spawn_min_lin_vel = 0,
       spawn_max_lin_vel = 0,
       spawn_min_ang_vel = 0,
       spawn_max_ang_vel = 0,
       goal_max_dist_from_origin = 0,
       position_tolerance = 5764607523034235 / 576460752303423488,
       maximum_robot_distance = 10,
       reset_after_n_steps_in_tolerance = 100 \<rparr>"

section \<open>The environments and the abstractions they call\<close>

text \<open>
  \<open>FloatingPlatformGoThroughPosesEnv\<close> and \<open>LeatherbackPushBlockEnv\<close> hold a robot
  abstraction (\<open>robot_api\<close>), a task abstraction (\<open>task_api\<close>) and the buffers of the
  base class \<open>DirectRLEnv\<close>. The classes of the abstractions and the base class are not
  among the sources, so a call into one of them is recorded, with its arguments, in the
  order in which the environment makes it, and what such a call returns is a parameter:
  a function of the calls made so far.
\<close>

datatype call =
    RobotProcessActions "real list list"
  | RobotApplyActions
  | RobotGetDones
  | RobotResetLogs "int list" "int list"
  | RobotComputeLogs
  | TaskGetObservations
  | TaskComputeRewards
  | TaskGetDones
  | TaskResetLogs "int list" "int list"
  | TaskComputeLogs
  | TaskReset "int list"
  | TaskCreateTaskVisualization
  | TaskUpdateTaskVisualization
  | SuperResetIdx "int list"
  | SceneWriteDataToSim
  | SimStep
  | SimRender
  | SceneUpdate
  | SceneRender
  | EventManagerApply
  | AddNoise

record api_returns =
  robot_get_dones :: "call list \<Rightarrow> bool list \<times> bool list"
  task_get_dones :: "call list \<Rightarrow> bool list \<times> bool list"
  task_get_observations :: "call list \<Rightarrow> real list list"
  task_compute_rewards :: "call list \<Rightarrow> real list"
  task_compute_logs :: "call list \<Rightarrow> (string \<rightharpoonup> real)"
  robot_compute_logs :: "call list \<Rightarrow> (string \<rightharpoonup> real)"

record env =
  num_envs :: int
  robot_ALL_INDICES :: "int list"
  episode_length_buf :: "int list"
  max_episode_length :: int
  cfg_debug_vis :: bool
  extras :: "string \<rightharpoonup> (string \<rightharpoonup> real)"
  calls :: "call list"
  api :: api_returns

definition call_api :: "call \<Rightarrow> env \<Rightarrow> env" where
  "call_api c e = e\<lparr>calls := calls e @ [c]\<rparr>"

subsection \<open>Methods that read the same in both environments\<close>

definition pre_physics_step :: "real list list \<Rightarrow> env \<Rightarrow> env" where
  "pre_physics_step actions e = call_api (RobotProcessActions actions) e"

text \<open>
  \<open>_apply_action\<close> passes the articulation to \<open>apply_actions\<close> in the floating platform
  and nothing in the leatherback; the call is the same.
\<close>

definition apply_action :: "env \<Rightarrow> env" where
  "apply_action e = call_api RobotApplyActions e"

definition get_observations :: "env \<Rightarrow> (string \<times> real list list) list \<times> env" where
  "get_observations e =
     (let task_obs = task_get_observations (api e) (calls e);
          e1 = call_api TaskGetObservations e;
          observations = [(''policy'', task_obs)]
      in (observations, e1))"

definition get_rewards :: "env \<Rightarrow> real list \<times> env" where
  "get_rewards e =
     (task_compute_rewards (api e) (calls e), call_api TaskComputeRewards e)"

definition get_dones :: "env \<Rightarrow> (error + bool list \<times> bool list) \<times> env" where
  "get_dones e =
     (let (robot_early_termination, robot_clean_termination) =
            robot_get_dones (api e) (calls e);
          e1 = call_api RobotGetDones e;
          (task_early_termination, task_clean_termination) =
            task_get_dones (api e1) (calls e1);
          e2 = call_api TaskGetDones e1;
          time_out = tensor_ge (episode_length_buf e2) (max_episode_length e2 - 1)
      in (case tensor_or robot_early_termination task_early_termination of
            Inl err \<Rightarrow> Inl err
          | Inr early_termination \<Rightarrow>
              (case tensor_or robot_clean_termination task_clean_termination of
                 Inl err \<Rightarrow> Inl err
               | Inr robot_or_task \<Rightarrow>
                   (case tensor_or robot_or_task time_out of
                      Inl err \<Rightarrow> Inl err
                    | Inr clean_termination \<Rightarrow>
                        Inr (early_termination, clean_termination))),
          e2))"

definition set_debug_vis_impl :: "bool \<Rightarrow> env \<Rightarrow> env" where
  "set_debug_vis_impl debug_vis e =
     (if debug_vis then call_api TaskCreateTaskVisualization e else e)"

text \<open>The callback ignores its event and reads the flag of the configuration.\<close>

definition debug_vis_callback :: "'event \<Rightarrow> env \<Rightarrow> env" where
  "debug_vis_callback event e =
     (if cfg_debug_vis e then call_api TaskUpdateTaskVisualization e else e)"

subsection \<open>\<open>_reset_idx\<close>\<close>

text \<open>
  \<open>env_ids\<close> is \<open>Sequence[int] | None\<close>. \<open>super()._reset_idx\<close> belongs to the base
  class: the model records the call and its argument and leaves the buffers of the
  base class as they are.
\<close>

definition FloatingPlatform_reset_idx :: "int list option \<Rightarrow> env \<Rightarrow> env" where
  "FloatingPlatform_reset_idx env_ids e =
     (let env_ids' =
            (case env_ids of
               None \<Rightarrow> robot_ALL_INDICES e
             | Some ids \<Rightarrow>
                 if int (length ids) = num_envs e then robot_ALL_INDICES e else ids);
          e1 = call_api (SuperResetIdx env_ids') e;
          e2 = call_api (TaskReset env_ids') e1
      in e2)"

text \<open>
  The leatherback logs before it resets. \<open>extras["log"]\<close> is set to a fresh dict and
  then updated with the task's logs and with the robot's: on a key both have, the
  robot's value stays.
\<close>

definition Leatherback_reset_idx :: "int list option \<Rightarrow> env \<Rightarrow> env" where
  "Leatherback_reset_idx env_ids e =
     (let env_ids' =
            (case env_ids of
               None \<Rightarrow> robot_ALL_INDICES e
             | Some ids \<Rightarrow>
                 if int (length ids) = num_envs e then robot_ALL_INDICES e else ids);
          e1 = call_api (TaskResetLogs env_ids' (episode_length_buf e)) e;
          task_extras = task_compute_logs (api e1) (calls e1);
          e2 = call_api TaskComputeLogs e1;
          e3 = call_api (RobotResetLogs env_ids' (episode_length_buf e2)) e2;
          robot_extras = robot_compute_logs (api e3) (calls e3);
          e4 = call_api RobotComputeLogs e3;
          e5 = e4\<lparr>extras := (extras e4)(''log'' \<mapsto> (Map.empty ++ task_extras) ++ robot_extras)\<rparr>;
          e6 = call_api (SuperResetIdx env_ids') e5;
          e7 = call_api (TaskReset env_ids') e6
      in e7)"

datatype env_class = FloatingPlatformGoThroughPosesEnv | LeatherbackPushBlockEnv

fun reset_idx :: "env_class \<Rightarrow> int list option \<Rightarrow> env \<Rightarrow> env" where
  "reset_idx FloatingPlatformGoThroughPosesEnv = FloatingPlatform_reset_idx"
| "reset_idx LeatherbackPushBlockEnv = Leatherback_reset_idx"

subsection \<open>The step of the host\<close>

text \<open>
  Modelled from the spec: the step of the base class \<open>DirectRLEnv\<close> is not among the
  sources. The spec has the host step physics and then query the abstractions for
  actions, observations, rewards and dones; both environments give the workflow of one
  step in a comment at the head of the class, and the model follows it line by line.
  What the comment leaves to the host is a parameter: the number \<open>N\<close> of skipped steps,
  whether a substep renders, which indices need a reset given the dones (a reset is
  required when there is one), whether there are RTX sensors, events, and noise.
\<close>

record host =
  skipped_steps :: nat
  rendering_required :: "nat \<Rightarrow> bool"
  reset_env_ids :: "bool list \<times> bool list \<Rightarrow> int list"
  rtx_sensors :: bool
  has_events :: bool
  noise_required :: bool

text \<open>
  Modelled from the spec: one pass of the workflow's loop over the skipped steps, a
  part of the absent \<open>DirectRLEnv.step\<close>.
\<close>

definition substep :: "host \<Rightarrow> nat \<Rightarrow> env \<Rightarrow> env" where
  "substep h i e =
     (let e1 = apply_action e;
          e2 = call_api SceneWriteDataToSim e1;
          e3 = call_api SimStep e2;
          e4 = (if rendering_required h i then call_api SimRender e3 else e3);
          e5 = call_api SceneUpdate e4
      in e5)"

type_synonym step_result =
  "(string \<times> real list list) list \<times> real list \<times> bool list \<times> bool list \<times> env"

text \<open>
  Modelled from the spec: \<open>DirectRLEnv.step\<close>, absent from the sources, as the
  workflow comment lists it; a shape error of \<open>_get_dones\<close> ends the step.
\<close>

definition step ::
    "env_class \<Rightarrow> host \<Rightarrow> real list list \<Rightarrow> env \<Rightarrow> error + step_result" where
  "step cls h actions e =
     (let e1 = pre_physics_step actions e;
          e2 = fold (substep h) [0..<skipped_steps h] e1;
          (dones, e3) = get_dones e2
      in case dones of
           Inl err \<Rightarrow> Inl err
         | Inr (early_termination, clean_termination) \<Rightarrow>
             (let (rewards, e4) = get_rewards e3;
                  ids = reset_env_ids h (early_termination, clean_termination);
                  e5 = (if ids \<noteq> []
                        then (let e4' = reset_idx cls (Some ids) e4
                              in if rtx_sensors h then call_api SceneRender e4' else e4')
                        else e4);
                  e6 = (if has_events h then call_api EventManagerApply e5 else e5);
                  (observations, e7) = get_observations e6;
                  e8 = (if noise_required h then call_api AddNoise e7 else e7)
              in Inr (observations, rewards, early_termination, clean_termination, e8)))"

subsection \<open>Reading the recorded calls\<close>

text \<open>The calls a method adds to the record it started from.\<close>

definition new_calls :: "env \<Rightarrow> env \<Rightarrow> call list" where
  "new_calls e e' = drop (length (calls e)) (calls e')"

fun is_task_reset :: "call \<Rightarrow> bool" where
  "is_task_reset (TaskReset ids) = True"
| "is_task_reset _ = False"

fun is_process_actions :: "call \<Rightarrow> bool" where
  "is_process_actions (RobotProcessActions actions) = True"
| "is_process_actions _ = False"

fun is_debug_vis_call :: "call \<Rightarrow> bool" where
  "is_debug_vis_call TaskCreateTaskVisualization = True"
| "is_debug_vis_call TaskUpdateTaskVisualization = True"
| "is_debug_vis_call _ = False"

text \<open>The calls that go into the robot or the task abstraction.\<close>

fun is_abstraction_call :: "call \<Rightarrow> bool" where
  "is_abstraction_call (RobotProcessActions actions) = True"
| "is_abstraction_call RobotApplyActions = True"
| "is_abstraction_call RobotGetDones = True"
| "is_abstraction_call (RobotResetLogs ids buf) = True"
| "is_abstraction_call RobotComputeLogs = True"
| "is_abstraction_call TaskGetObservations = True"
| "is_abstraction_call TaskComputeRewards = True"
| "is_abstraction_call TaskGetDones = True"
| "is_abstraction_call (TaskResetLogs ids buf) = True"
| "is_abstraction_call TaskComputeLogs = True"
| "is_abstraction_call (TaskReset ids) = True"
| "is_abstraction_call TaskCreateTaskVisualization = True"
| "is_abstraction_call TaskUpdateTaskVisualization = True"
| "is_abstraction_call _ = False"

text \<open>The calls of one physics substep, and of one whole step given its dones.\<close>

definition substep_calls :: "host \<Rightarrow> nat \<Rightarrow> call list" where
  "substep_calls h i =
     [RobotApplyActions, SceneWriteDataToSim, SimStep]
     @ (if rendering_required h i then [SimRender] else [])
     @ [SceneUpdate]"

definition step_calls ::
    "env_class \<Rightarrow> host \<Rightarrow> real list list \<Rightarrow> env \<Rightarrow> bool list \<times> bool list \<Rightarrow> call list" where
  "step_calls cls h actions e dones =
     [RobotProcessActions actions]
     @ concat (map (substep_calls h) [0..<skipped_steps h])
     @ [RobotGetDones, TaskGetDones, TaskComputeRewards]
     @ (if reset_env_ids h dones = [] then []
        else new_calls e (reset_idx cls (Some (reset_env_ids h dones)) e)
             @ (if rtx_sensors h then [SceneRender] else []))
     @ (if has_events h then [EventManagerApply] else [])
     @ [TaskGetObservations]
     @ (if noise_required h then [AddNoise] else [])"

subsection \<open>An environment of three instances\<close>

text \<open>
  Three instances at episode lengths 0, 5 and 9 of at most 10 steps; the robot ends
  instance 0 early, the task ends instance 1 cleanly, and each abstraction has one log
  entry.
\<close>

definition example_env :: env where
  "example_env =
     \<lparr> num_envs = 3,
       robot_ALL_INDICES = [0, 1, 2],
       episode_length_buf = [0, 5, 9],
       max_episode_length = 10,
       cfg_debug_vis = True,
       extras = Map.empty,
       calls = [],
       api = \<lparr> robot_get_dones = (\<lambda>h. ([True, False, False], [False, False, False])),
               task_get_dones = (\<lambda>h. ([False, False, False], [False, True, False])),
               task_get_observations = (\<lambda>h. [[0], [0], [0]]),
               task_compute_rewards = (\<lambda>h. [0, 0, 0]),
               task_compute_logs = (\<lambda>h. [''task/distance'' \<mapsto> 1]),
               robot_compute_logs = (\<lambda>h. [''robot/action_rate'' \<mapsto> 2]) \<rparr> \<rparr>"

text \<open>
  A host of two substeps per step that renders on the second one and resets the
  instances whose early or clean termination flag is set.
\<close>

definition example_host :: host where
  "example_host =
     \<lparr> skipped_steps = 2,
       rendering_required = (\<lambda>i. i = 1),
       reset_env_ids = (\<lambda>(early, clean).
          map int (filter (\<lambda>i. early ! i \<or> clean ! i) [0..<length early])),
       rtx_sensors = False,
       has_events = False,
       noise_required = False \<rparr>"

section \<open>Action spaces of the floating platform\<close>




text \<open>
  \<open>FloatingPlatformRobotCfg\<close>, without its articulation, joint names, reward scales
  and the robot's own action space, which the properties below do not read.
\<close>

record FloatingPlatformRobotCfg =
  is_reaction_wheel :: bool
  num_thrusters :: int
  max_thrust :: real
  split_thrust :: bool


text \<open>
  The body of \<open>FloatingPlatformGoThroughPosesEnvCfg\<close> runs once, when the class is
  defined: it binds \<open>robot_cfg\<close> to \<open>FloatingPlatformRobotCfg()\<close> and computes
  \<open>num_actions\<close> from that object. Every configuration starts from these values.
\<close>

record FloatingPlatformGoThroughPosesEnvCfg =
  scene_num_envs :: int
  decimation :: int
  robot_cfg :: FloatingPlatformRobotCfg
  debug_vis :: bool
  num_actions :: int
  num_observations :: int
  num_states :: int





section \<open>The task-configuration registry\<close>

text \<open>
  \<open>tasks_cfg/__init__.py\<close> imports eight configuration classes and registers each
  under a name. The classes are not among the sources; a class is named by a
  constructor.
\<close>

datatype cfg_class =
    GoThroughPosesCfg_class
  | GoThroughPositionsCfg_class
  | GoToPoseCfg_class
  | GoToPositionCfg_class
  | PushBlockCfg_class
  | RaceWaypointsCfg_class
  | RaceWayposesCfg_class
  | TrackVelocitiesCfg_class

type_synonym factory = "string \<rightharpoonup> cfg_class"

text \<open>
  Modelled from the spec: the class \<open>factory\<close> of \<open>rans.utils.misc\<close> is not among the
  sources. The spec calls the registry "a name-to-configuration mapping allowing task
  and robot variants to be selected": a fresh factory maps no name.
\<close>

definition factory :: factory where
  "factory = Map.empty"

text \<open>
  Modelled from the spec: \<open>factory.register\<close>, absent from the sources, maps the name
  to the configuration class.
\<close>

definition register :: "string \<Rightarrow> cfg_class \<Rightarrow> factory \<Rightarrow> factory" where
  "register name cls f = f(name \<mapsto> cls)"

text \<open>
  Modelled from the spec: selecting by name, absent from the sources, yields the
  configuration class the name is mapped to, if there is one.
\<close>

definition lookup :: "factory \<Rightarrow> string \<Rightarrow> cfg_class option" where
  "lookup f name = f name"

text \<open>The eight \<open>register\<close> calls of the module, the first innermost.\<close>

definition TASK_CFG_FACTORY :: factory where
  "TASK_CFG_FACTORY =
     (register ''TrackVelocities'' TrackVelocitiesCfg_class
     (register ''RaceWayposes'' RaceWayposesCfg_class
     (register ''RaceWaypoints'' RaceWaypointsCfg_class
     (register ''PushBlock'' PushBlockCfg_class
     (register ''GoToPosition'' GoToPositionCfg_class
     (register ''GoToPose'' GoToPoseCfg_class
     (register ''GoThroughPositions'' GoThroughPositionsCfg_class
     (register ''GoThroughPoses'' GoThroughPosesCfg_class
      factory))))))))"

definition registered_names :: "string list" where
  "registered_names =
     [''GoThroughPoses'', ''GoThroughPositions'', ''GoToPose'', ''GoToPosition'',
      ''PushBlock'', ''RaceWaypoints'', ''RaceWayposes'', ''TrackVelocities'']"

section \<open>What the packages export\<close>

text \<open>
  The names a package's \<open>__init__.py\<close> binds are the names its import statements and
  assignments bind, and the submodules those imports load. \<open>from package import a, b\<close>
  looks each name up in turn and raises \<open>ImportError\<close> at the first one the package
  does not have.
\<close>

fun import_from :: "string list \<Rightarrow> string list \<Rightarrow> error + unit" where
  "import_from namespace [] = Inr ()"
| "import_from namespace (name # names) =
     (if name \<in> set namespace then import_from namespace names
      else Inl (ImportError name))"

text \<open>\<open>rans/tasks_cfg/__init__.py\<close>.\<close>

definition tasks_cfg_exports :: "string list" where
  "tasks_cfg_exports =
     [''TaskCoreCfg'', ''factory'', ''GoThroughPosesCfg'', ''GoThroughPositionsCfg'',
      ''GoToPoseCfg'', ''GoToPositionCfg'', ''PushBlockCfg'', ''RaceWaypointsCfg'',
      ''RaceWayposesCfg'', ''TrackVelocitiesCfg'', ''TASK_CFG_FACTORY'',
      ''task_core_cfg'', ''go_through_poses_cfg'', ''go_through_positions_cfg'',
      ''go_to_pose_cfg'', ''go_to_position_cfg'', ''push_block_cfg'',
      ''race_waypoints_cfg'', ''race_wayposes_cfg'', ''track_velocities_cfg'']"

text \<open>\<open>rans/__init__.py\<close>: its five import statements, in order.\<close>

definition robots_cfg_imports :: "string list" where
  "robots_cfg_imports =
     [''FloatingPlatformRobotCfg'', ''LeatherbackRobotCfg'', ''RobotCoreCfg'',
      ''JetbotRobotCfg'']"

definition robots_imports :: "string list" where
  "robots_imports =
     [''FloatingPlatformRobot'', ''LeatherbackRobot'', ''RobotCore'', ''JetbotRobot'']"

definition tasks_cfg_imports :: "string list" where
  "tasks_cfg_imports =
     [''GoThroughPosesCfg'', ''GoThroughPositionsCfg'', ''GoToPoseCfg'', ''GoToPositionCfg'',
      ''RaceWaypointsCfg'', ''RaceWayposesCfg'', ''TaskCoreCfg'', ''TrackVelocitiesCfg'']"

definition tasks_imports :: "string list" where
  "tasks_imports =
     [''GoThroughPosesTask'', ''GoThroughPositionsTask'', ''GoToPoseTask'',
      ''GoToPositionTask'', ''RaceWaypointsTask'', ''RaceWayposesTask'', ''TaskCore'',
      ''TrackVelocitiesTask'']"

definition utils_imports :: "string list" where
  "utils_imports = [''TrackGenerator'', ''PerEnvSeededRNG'']"

definition rans_submodules :: "string list" where
  "rans_submodules = [''robots_cfg'', ''robots'', ''tasks_cfg'', ''tasks'', ''utils'']"

definition rans_exports :: "string list" where
  "rans_exports =
     robots_cfg_imports @ robots_imports @ tasks_cfg_imports @ tasks_imports
     @ utils_imports @ rans_submodules"

text \<open>What the two environment modules import from \<open>omni.isaac.lab_tasks.rans\<close>.\<close>

definition FloatingPlatformGoThroughPosesEnv_imports :: "string list" where
  "FloatingPlatformGoThroughPosesEnv_imports =
     [''FloatingPlatformRobot'', ''FloatingPlatformRobotCfg'', ''GoThroughPosesCfg'',
      ''GoThroughPosesTask'']"

definition LeatherbackPushBlockEnv_imports :: "string list" where
  "LeatherbackPushBlockEnv_imports =
     [''LeatherbackRobot'', ''LeatherbackRobotCfg'', ''PushBlockCfg'', ''PushBlockTask'']"

section \<open>Properties\<close>

subsection \<open>Defaults of \<open>GoToPositionCfg\<close>\<close>

text \<open>
  C10. The default \<open>GoToPositionCfg\<close> is ordered as its field pairs imply: each spawn
  minimum is at most the corresponding spawn maximum (distance, heading distance,
  linear velocity, angular velocity), the position tolerance is strictly positive, and
  the maximal spawn distance, 5.0, is strictly below \<open>maximum_robot_distance\<close>, 10.0.
\<close>

theorem GoToPositionCfg_default_ordered:
  "spawn_min_dist GoToPositionCfg_default \<le> spawn_max_dist GoToPositionCfg_default
   \<and> spawn_min_heading_dist GoToPositionCfg_default
       \<le> spawn_max_heading_dist GoToPositionCfg_default
   \<and> spawn_min_lin_vel GoToPositionCfg_default \<le> spawn_max_lin_vel GoToPositionCfg_default
   \<and> spawn_min_ang_vel GoToPositionCfg_default \<le> spawn_max_ang_vel GoToPositionCfg_default
   \<and> 0 < position_tolerance GoToPositionCfg_default
   \<and> spawn_max_dist GoToPositionCfg_default = 5
   \<and> maximum_robot_distance GoToPositionCfg_default = 10
   \<and> spawn_max_dist GoToPositionCfg_default < maximum_robot_distance GoToPositionCfg_default"
  by (simp add: GoToPositionCfg_default_def math_pi_def)

subsection \<open>Termination flags\<close>

lemma tensor_or_same_length:
  "length xs = length ys \<Longrightarrow> tensor_or xs ys = Inr (map2 (\<or>) xs ys)"
  by (simp add: tensor_or_def)

text \<open>
  C1. In a state whose flags and episode-length buffer all have one entry per
  environment instance, \<open>_get_dones\<close> returns the pair (early termination, clean
  termination): early termination is, entry by entry, the robot's early flag or the
  task's; clean termination is the robot's clean flag or the task's or the time-out,
  and the time-out of an instance holds exactly when its \<open>episode_length_buf\<close> is at
  least \<open>max_episode_length - 1\<close>.
\<close>

theorem get_dones_elementwise:
  assumes "robot_get_dones (api e) (calls e) = (robot_early, robot_clean)"
    and "task_get_dones (api e) (calls e @ [RobotGetDones]) = (task_early, task_clean)"
    and "length robot_early = n" and "length task_early = n"
    and "length robot_clean = n" and "length task_clean = n"
    and "length (episode_length_buf e) = n"
  shows "\<exists>early clean.
           fst (get_dones e) = Inr (early, clean)
           \<and> length early = n \<and> length clean = n
           \<and> (\<forall>i<n. early ! i = (robot_early ! i \<or> task_early ! i)
                  \<and> clean ! i = (robot_clean ! i \<or> task_clean ! i
                       \<or> episode_length_buf e ! i \<ge> max_episode_length e - 1))"
proof -
  let ?time_out = "tensor_ge (episode_length_buf e) (max_episode_length e - 1)"
  let ?early = "map2 (\<or>) robot_early task_early"
  let ?clean = "map2 (\<or>) (map2 (\<or>) robot_clean task_clean) ?time_out"
  have len_t: "length ?time_out = n"
    using assms(7) by (simp add: tensor_ge_def)
  have r: "fst (get_dones e) = Inr (?early, ?clean)"
    using assms len_t
    by (simp add: get_dones_def call_api_def tensor_or_same_length)
  have le: "length ?early = n" and lc: "length ?clean = n"
    using assms len_t by simp_all
  have "\<forall>i<n. ?early ! i = (robot_early ! i \<or> task_early ! i)
             \<and> ?clean ! i = (robot_clean ! i \<or> task_clean ! i
                   \<or> episode_length_buf e ! i \<ge> max_episode_length e - 1)"
    using assms by (simp add: tensor_ge_def)
  with r le lc show ?thesis by blast
qed

theorem get_dones_elementwise_witness:
  "fst (get_dones example_env) = Inr ([True, False, False], [False, True, True])"
proof -
  have "\<exists>early clean.
           fst (get_dones example_env) = Inr (early, clean)
           \<and> length early = 3 \<and> length clean = 3
           \<and> (\<forall>i<3. early ! i = ([True, False, False] ! i \<or> [False, False, False] ! i)
                  \<and> clean ! i = ([False, False, False] ! i \<or> [False, True, False] ! i
                       \<or> episode_length_buf example_env ! i
                            \<ge> max_episode_length example_env - 1))"
    by (rule get_dones_elementwise) (simp_all add: example_env_def)
  then show ?thesis
    by (simp add: get_dones_def call_api_def example_env_def tensor_or_def tensor_ge_def)
qed

subsection \<open>Resets\<close>

text \<open>
  C3. \<open>_reset_idx\<close> resolves its argument first: when \<open>env_ids\<close> is \<open>None\<close> or as long
  as there are environments, the indices are the robot's \<open>_ALL_INDICES\<close>, otherwise
  they are \<open>env_ids\<close>. In both environments the reset of the base class and the reset
  of the task abstraction are then called with the resolved indices, and the task's
  reset is called exactly once.
\<close>

theorem reset_idx_task_reset_once:
  "calls (reset_idx FloatingPlatformGoThroughPosesEnv env_ids e) =
     calls e @
       (let resolved = (if env_ids = None \<or> int (length (the env_ids)) = num_envs e
                        then robot_ALL_INDICES e else the env_ids)
        in [SuperResetIdx resolved, TaskReset resolved])
   \<and> calls (reset_idx LeatherbackPushBlockEnv env_ids e) =
     calls e @
       (let resolved = (if env_ids = None \<or> int (length (the env_ids)) = num_envs e
                        then robot_ALL_INDICES e else the env_ids)
        in [TaskResetLogs resolved (episode_length_buf e), TaskComputeLogs,
            RobotResetLogs resolved (episode_length_buf e), RobotComputeLogs,
            SuperResetIdx resolved, TaskReset resolved])
   \<and> filter is_task_reset (new_calls e (reset_idx cls env_ids e)) =
       [TaskReset (if env_ids = None \<or> int (length (the env_ids)) = num_envs e
                   then robot_ALL_INDICES e else the env_ids)]"
proof -
  have fp: "calls (reset_idx FloatingPlatformGoThroughPosesEnv env_ids e) =
     calls e @
       (let resolved = (if env_ids = None \<or> int (length (the env_ids)) = num_envs e
                        then robot_ALL_INDICES e else the env_ids)
        in [SuperResetIdx resolved, TaskReset resolved])"
    by (cases env_ids) (simp_all add: FloatingPlatform_reset_idx_def call_api_def Let_def)
  have lb: "calls (reset_idx LeatherbackPushBlockEnv env_ids e) =
     calls e @
       (let resolved = (if env_ids = None \<or> int (length (the env_ids)) = num_envs e
                        then robot_ALL_INDICES e else the env_ids)
        in [TaskResetLogs resolved (episode_length_buf e), TaskComputeLogs,
            RobotResetLogs resolved (episode_length_buf e), RobotComputeLogs,
            SuperResetIdx resolved, TaskReset resolved])"
    by (cases env_ids) (simp_all add: Leatherback_reset_idx_def call_api_def Let_def)
  have "filter is_task_reset (new_calls e (reset_idx cls env_ids e)) =
       [TaskReset (if env_ids = None \<or> int (length (the env_ids)) = num_envs e
                   then robot_ALL_INDICES e else the env_ids)]"
  proof (cases cls)
    case FloatingPlatformGoThroughPosesEnv
    then show ?thesis using fp by (simp add: new_calls_def Let_def)
  next
    case LeatherbackPushBlockEnv
    then show ?thesis using lb by (simp add: new_calls_def Let_def)
  qed
  with fp lb show ?thesis by blast
qed

theorem reset_idx_task_reset_once_witness:
  "calls (reset_idx FloatingPlatformGoThroughPosesEnv None example_env) =
     [SuperResetIdx [0, 1, 2], TaskReset [0, 1, 2]]
   \<and> calls (reset_idx FloatingPlatformGoThroughPosesEnv (Some [2, 0, 1]) example_env) =
     [SuperResetIdx [0, 1, 2], TaskReset [0, 1, 2]]
   \<and> calls (reset_idx LeatherbackPushBlockEnv (Some [1]) example_env) =
     [TaskResetLogs [1] [0, 5, 9], TaskComputeLogs, RobotResetLogs [1] [0, 5, 9],
      RobotComputeLogs, SuperResetIdx [1], TaskReset [1]]
   \<and> filter is_task_reset
       (new_calls example_env (reset_idx LeatherbackPushBlockEnv (Some [1]) example_env)) =
     [TaskReset [1]]"
  using reset_idx_task_reset_once [of None example_env LeatherbackPushBlockEnv]
    reset_idx_task_reset_once [of "Some [2, 0, 1]" example_env LeatherbackPushBlockEnv]
    reset_idx_task_reset_once [of "Some [1]" example_env LeatherbackPushBlockEnv]
  by (simp add: example_env_def Let_def)

subsection \<open>Debug visualization\<close>

lemma fold_debug_vis_callback_off:
  "\<not> cfg_debug_vis e \<Longrightarrow> fold debug_vis_callback events e = e"
  by (induction events) (simp_all add: debug_vis_callback_def)

lemma fold_debug_vis_callback_on:
  "cfg_debug_vis e \<Longrightarrow>
   fold debug_vis_callback events e =
     e\<lparr>calls := calls e @ replicate (length events) TaskUpdateTaskVisualization\<rparr>"
proof (induction events arbitrary: e)
  case Nil
  then show ?case by simp
next
  case (Cons ev events)
  let ?e1 = "call_api TaskUpdateTaskVisualization e"
  have flag: "cfg_debug_vis ?e1"
    using Cons.prems by (simp add: call_api_def)
  have "fold debug_vis_callback (ev # events) e = fold debug_vis_callback events ?e1"
    using Cons.prems by (simp add: debug_vis_callback_def)
  also have "\<dots> =
      ?e1\<lparr>calls := calls ?e1 @ replicate (length events) TaskUpdateTaskVisualization\<rparr>"
    using Cons.IH [OF flag] .
  also have "\<dots> =
      e\<lparr>calls := calls e @ replicate (length (ev # events)) TaskUpdateTaskVisualization\<rparr>"
    by (simp add: call_api_def replicate_app_Cons_same)
  finally show ?case .
qed

text \<open>
  C8. Debug visualization is on demand. With the flag false, \<open>_set_debug_vis_impl\<close>
  makes no call into the task abstraction and no run of \<open>_debug_vis_callback\<close> makes
  one: the environment, and with it the task's visualization, is as it was. With the
  flag true, \<open>_set_debug_vis_impl\<close> calls \<open>create_task_visualization\<close> and every run of
  \<open>_debug_vis_callback\<close> calls \<open>update_task_visualization\<close>, once per event. The flag
  \<open>_set_debug_vis_impl\<close> reads is its argument; the callback reads \<open>cfg.debug_vis\<close>.
\<close>

theorem debug_vis_on_demand:
  "(\<not> flag \<longrightarrow> set_debug_vis_impl flag e = e)
   \<and> (\<not> cfg_debug_vis e \<longrightarrow> fold debug_vis_callback events e = e)
   \<and> (flag \<longrightarrow>
        set_debug_vis_impl flag e = e\<lparr>calls := calls e @ [TaskCreateTaskVisualization]\<rparr>)
   \<and> (cfg_debug_vis e \<longrightarrow>
        fold debug_vis_callback events e =
          e\<lparr>calls := calls e @ replicate (length events) TaskUpdateTaskVisualization\<rparr>)"
  by (simp add: set_debug_vis_impl_def call_api_def fold_debug_vis_callback_off
      fold_debug_vis_callback_on)

theorem debug_vis_on_demand_witness:
  "calls (fold debug_vis_callback [(), (), ()] (set_debug_vis_impl True example_env)) =
     [TaskCreateTaskVisualization, TaskUpdateTaskVisualization,
      TaskUpdateTaskVisualization, TaskUpdateTaskVisualization]
   \<and> fold debug_vis_callback [(), (), ()]
       (set_debug_vis_impl False (example_env\<lparr>cfg_debug_vis := False\<rparr>)) =
     example_env\<lparr>cfg_debug_vis := False\<rparr>"
  using debug_vis_on_demand [of True example_env "[(), (), ()]"]
    debug_vis_on_demand [of True "set_debug_vis_impl True example_env" "[(), (), ()]"]
    debug_vis_on_demand [of False "example_env\<lparr>cfg_debug_vis := False\<rparr>" "[(), (), ()]"]
  by (simp add: example_env_def)

subsection \<open>Logging on reset\<close>

text \<open>
  What \<open>LeatherbackPushBlockEnv._reset_idx\<close> stores under \<open>"log"\<close>: the task's logs
  overridden by the robot's, each computed right after its accumulators were reset.
\<close>

lemma Leatherback_reset_idx_log:
  "extras (Leatherback_reset_idx env_ids e) ''log'' =
     (let resolved = (if env_ids = None \<or> int (length (the env_ids)) = num_envs e
                      then robot_ALL_INDICES e else the env_ids);
          buf = episode_length_buf e
      in Some (task_compute_logs (api e) (calls e @ [TaskResetLogs resolved buf])
               ++ robot_compute_logs (api e)
                    (calls e @ [TaskResetLogs resolved buf, TaskComputeLogs,
                                RobotResetLogs resolved buf])))"
  by (cases env_ids) (simp_all add: Leatherback_reset_idx_def call_api_def Let_def)

text \<open>
  C4. Every RANS environment is to reset the task's and the robot's logs on a reset
  and to store both under the \<open>"log"\<close> key of \<open>extras\<close>. The leatherback does; the
  floating platform's \<open>_reset_idx\<close> makes no logging call and leaves \<open>extras\<close> without
  a \<open>"log"\<close> entry, here on a reset of instance 1 of three.
\<close>

theorem FloatingPlatform_reset_idx_no_logs:
  "calls (FloatingPlatform_reset_idx (Some [1]) example_env) =
     [SuperResetIdx [1], TaskReset [1]]
   \<and> extras (FloatingPlatform_reset_idx (Some [1]) example_env) ''log'' = None
   \<and> (case extras (Leatherback_reset_idx (Some [1]) example_env) ''log'' of
         None \<Rightarrow> False
       | Some d \<Rightarrow> d ''task/distance'' = Some 1 \<and> d ''robot/action_rate'' = Some 2)"
  by (simp add: FloatingPlatform_reset_idx_def Leatherback_reset_idx_def call_api_def
      example_env_def Let_def)

subsection \<open>The registry\<close>

lemma lookup_register:
  "lookup (register name cls f) name' = (if name' = name then Some cls else lookup f name')"
  by (simp add: lookup_def register_def)

text \<open>
  C2. The registry maps names to configurations. After the eight \<open>register\<close> calls of
  the module, each of the eight names yields the class registered under it, a name that
  was never registered yields none, and a lookup right after a \<open>register\<close> yields the
  class just registered.
\<close>

theorem TASK_CFG_FACTORY_round_trip:
  "lookup TASK_CFG_FACTORY ''GoThroughPoses'' = Some GoThroughPosesCfg_class
   \<and> lookup TASK_CFG_FACTORY ''GoThroughPositions'' = Some GoThroughPositionsCfg_class
   \<and> lookup TASK_CFG_FACTORY ''GoToPose'' = Some GoToPoseCfg_class
   \<and> lookup TASK_CFG_FACTORY ''GoToPosition'' = Some GoToPositionCfg_class
   \<and> lookup TASK_CFG_FACTORY ''PushBlock'' = Some PushBlockCfg_class
   \<and> lookup TASK_CFG_FACTORY ''RaceWaypoints'' = Some RaceWaypointsCfg_class
   \<and> lookup TASK_CFG_FACTORY ''RaceWayposes'' = Some RaceWayposesCfg_class
   \<and> lookup TASK_CFG_FACTORY ''TrackVelocities'' = Some TrackVelocitiesCfg_class
   \<and> (\<forall>name. name \<notin> set registered_names \<longrightarrow> lookup TASK_CFG_FACTORY name = None)
   \<and> (\<forall>f name cls. lookup (register name cls f) name = Some cls)"
proof -
  have none: "\<forall>name. name \<notin> set registered_names \<longrightarrow> lookup TASK_CFG_FACTORY name = None"
    by (simp add: TASK_CFG_FACTORY_def lookup_register registered_names_def)
       (simp add: lookup_def factory_def)
  have rt: "\<forall>f name cls. lookup (register name cls f) name = Some cls"
    by (simp add: lookup_register)
  have "lookup TASK_CFG_FACTORY ''GoThroughPoses'' = Some GoThroughPosesCfg_class"
    and "lookup TASK_CFG_FACTORY ''GoThroughPositions'' = Some GoThroughPositionsCfg_class"
    and "lookup TASK_CFG_FACTORY ''GoToPose'' = Some GoToPoseCfg_class"
    and "lookup TASK_CFG_FACTORY ''GoToPosition'' = Some GoToPositionCfg_class"
    and "lookup TASK_CFG_FACTORY ''PushBlock'' = Some PushBlockCfg_class"
    and "lookup TASK_CFG_FACTORY ''RaceWaypoints'' = Some RaceWaypointsCfg_class"
    and "lookup TASK_CFG_FACTORY ''RaceWayposes'' = Some RaceWayposesCfg_class"
    and "lookup TASK_CFG_FACTORY ''TrackVelocities'' = Some TrackVelocitiesCfg_class"
    by (simp_all add: TASK_CFG_FACTORY_def lookup_register)
  with none rt show ?thesis by blast
qed

theorem TASK_CFG_FACTORY_round_trip_witness:
  "''GoToPositions'' \<notin> set registered_names
   \<and> lookup TASK_CFG_FACTORY ''GoToPositions'' = None
   \<and> lookup TASK_CFG_FACTORY ''GoToPosition'' = Some GoToPositionCfg_class"
proof -
  have "''GoToPositions'' \<notin> set registered_names"
    by (simp add: registered_names_def)
  with TASK_CFG_FACTORY_round_trip show ?thesis by blast
qed

subsection \<open>Exports of the \<open>rans\<close> package\<close>

text \<open>
  C5. Every registered task variant is to be importable from the \<open>rans\<close> package, and
  \<open>PushBlockCfg\<close> and \<open>PushBlockTask\<close>, which \<open>LeatherbackPushBlockEnv\<close> imports from
  it, are to be among its exports. They are not: \<open>tasks_cfg\<close> has \<open>PushBlockCfg\<close>, the
  top-level \<open>__init__\<close> imports the seven other task configurations and not this one,
  and the import statement of the leatherback module raises at \<open>PushBlockCfg\<close>, while
  the floating platform's import goes through.
\<close>

theorem PushBlock_not_exported:
  "''PushBlockCfg'' \<in> set tasks_cfg_exports
   \<and> import_from tasks_cfg_exports tasks_cfg_imports = Inr ()
   \<and> ''PushBlockCfg'' \<notin> set rans_exports
   \<and> ''PushBlockTask'' \<notin> set rans_exports
   \<and> import_from rans_exports LeatherbackPushBlockEnv_imports
       = Inl (ImportError ''PushBlockCfg'')
   \<and> import_from rans_exports FloatingPlatformGoThroughPosesEnv_imports = Inr ()"
  by (simp add: rans_exports_def robots_cfg_imports_def robots_imports_def
      tasks_cfg_imports_def tasks_imports_def utils_imports_def rans_submodules_def
      tasks_cfg_exports_def LeatherbackPushBlockEnv_imports_def
      FloatingPlatformGoThroughPosesEnv_imports_def)

subsection \<open>Action spaces\<close>



subsection \<open>Order of one step\<close>

lemma fold_substep:
  "fold (substep h) steps e = e\<lparr>calls := calls e @ concat (map (substep_calls h) steps)\<rparr>"
proof (induction steps arbitrary: e)
  case Nil
  then show ?case by simp
next
  case (Cons i steps)
  have "substep h i e = e\<lparr>calls := calls e @ substep_calls h i\<rparr>"
    by (simp add: substep_def substep_calls_def apply_action_def call_api_def)
  then show ?case by (simp add: Cons.IH)
qed


lemma get_dones_env:
  "snd (get_dones e) = e\<lparr>calls := calls e @ [RobotGetDones, TaskGetDones]\<rparr>"
  by (simp add: get_dones_def call_api_def Let_def split: prod.splits)

lemma get_dones_returns:
  assumes "\<forall>hist. length (fst (robot_get_dones (api e) hist)) = n
                \<and> length (snd (robot_get_dones (api e) hist)) = n
                \<and> length (fst (task_get_dones (api e) hist)) = n
                \<and> length (snd (task_get_dones (api e) hist)) = n"
    and "length (episode_length_buf e) = n"
  shows "\<exists>early clean. fst (get_dones e) = Inr (early, clean)"
proof -
  obtain re rc where r: "robot_get_dones (api e) (calls e) = (re, rc)"
    by (cases "robot_get_dones (api e) (calls e)")
  obtain te tc where t: "task_get_dones (api e) (calls e @ [RobotGetDones]) = (te, tc)"
    by (cases "task_get_dones (api e) (calls e @ [RobotGetDones])")
  have "length re = n" "length rc = n"
    using assms(1) r by (metis fst_conv, metis snd_conv)
  moreover have "length te = n" "length tc = n"
    using assms(1) t by (metis fst_conv, metis snd_conv)
  moreover have "length (tensor_ge (episode_length_buf e) (max_episode_length e - 1)) = n"
    using assms(2) by (simp add: tensor_ge_def)
  ultimately show ?thesis
    using r t by (simp add: get_dones_def call_api_def tensor_or_def)
qed

lemma reset_idx_calls:
  assumes "num_envs x = num_envs e" and "robot_ALL_INDICES x = robot_ALL_INDICES e"
    and "episode_length_buf x = episode_length_buf e"
  shows "calls (reset_idx cls env_ids x) = calls x @ new_calls e (reset_idx cls env_ids e)"
  using assms
  by (cases cls; cases env_ids)
     (simp_all add: FloatingPlatform_reset_idx_def Leatherback_reset_idx_def call_api_def
        new_calls_def Let_def)

lemma reset_idx_new_calls_filters:
  "filter is_process_actions (new_calls e (reset_idx cls env_ids e)) = []"
  "filter (\<lambda>c. c = RobotApplyActions) (new_calls e (reset_idx cls env_ids e)) = []"
  "filter (\<lambda>c. c = SimStep) (new_calls e (reset_idx cls env_ids e)) = []"
  "filter is_debug_vis_call (new_calls e (reset_idx cls env_ids e)) = []"
  by (cases cls; cases env_ids;
      simp add: FloatingPlatform_reset_idx_def Leatherback_reset_idx_def call_api_def
        new_calls_def Let_def)+

lemma substeps_filters:
  "filter is_process_actions (concat (map (substep_calls h) steps)) = []"
  "length (filter (\<lambda>c. c = RobotApplyActions) (concat (map (substep_calls h) steps))) = length steps"
  "length (filter (\<lambda>c. c = SimStep) (concat (map (substep_calls h) steps))) = length steps"
  "filter is_debug_vis_call (concat (map (substep_calls h) steps)) = []"
  by (induction steps) (simp_all add: substep_calls_def)

lemma step_new_calls:
  assumes "step cls h actions e = Inr (observations, rewards, early, clean, e')"
  shows "calls e' = calls e @ step_calls cls h actions e (early, clean)"
proof -
  let ?e2 = "fold (substep h) [0..<skipped_steps h] (pre_physics_step actions e)"
  have e2: "?e2 = e\<lparr>calls := calls e @ [RobotProcessActions actions]
                        @ concat (map (substep_calls h) [0..<skipped_steps h])\<rparr>"
    by (simp add: fold_substep pre_physics_step_def call_api_def)
  obtain dones e3 where gd: "get_dones ?e2 = (dones, e3)"
    by (cases "get_dones ?e2")
  have e3: "e3 = ?e2\<lparr>calls := calls ?e2 @ [RobotGetDones, TaskGetDones]\<rparr>"
    using gd get_dones_env [of ?e2] by simp
  from assms gd have d: "dones = Inr (early, clean)"
    by (auto simp: step_def Let_def split: sum.splits prod.splits)
  let ?e4 = "call_api TaskComputeRewards e3"
  have same: "num_envs ?e4 = num_envs e" "robot_ALL_INDICES ?e4 = robot_ALL_INDICES e"
    "episode_length_buf ?e4 = episode_length_buf e"
    by (simp_all add: e3 e2 call_api_def)
  have c4: "calls ?e4 = calls e @ [RobotProcessActions actions]
                        @ concat (map (substep_calls h) [0..<skipped_steps h])
                        @ [RobotGetDones, TaskGetDones, TaskComputeRewards]"
    by (simp add: e3 e2 call_api_def)
  show ?thesis
    using assms gd d c4 reset_idx_calls [OF same]
    by (auto simp: step_def Let_def get_rewards_def get_observations_def step_calls_def
        call_api_def split: prod.splits)
qed


lemma step_returns:
  assumes "\<forall>hist. length (fst (robot_get_dones (api e) hist)) = n
                \<and> length (snd (robot_get_dones (api e) hist)) = n
                \<and> length (fst (task_get_dones (api e) hist)) = n
                \<and> length (snd (task_get_dones (api e) hist)) = n"
    and "length (episode_length_buf e) = n"
  shows "\<exists>observations rewards early clean e'.
           step cls h actions e = Inr (observations, rewards, early, clean, e')"
proof -
  let ?e2 = "fold (substep h) [0..<skipped_steps h] (pre_physics_step actions e)"
  have e2: "?e2 = e\<lparr>calls := calls e @ [RobotProcessActions actions]
                        @ concat (map (substep_calls h) [0..<skipped_steps h])\<rparr>"
    by (simp add: fold_substep pre_physics_step_def call_api_def)
  have "\<exists>early clean. fst (get_dones ?e2) = Inr (early, clean)"
    by (rule get_dones_returns [where n = n]) (simp_all add: e2 assms)
  then obtain early clean where "fst (get_dones ?e2) = Inr (early, clean)"
    by blast
  then show ?thesis
    by (cases "get_dones ?e2") (simp add: step_def Let_def split: prod.splits)
qed

text \<open>
  C7. One step of the host, in a state whose flags have one entry per instance: the
  step returns, and the calls it makes are, in this order, \<open>process_actions\<close> once;
  for each of the \<open>N\<close> physics substeps \<open>apply_actions\<close>, the write to the simulation,
  the simulation step, a render when required and the scene update; then the dones of
  the robot and of the task, the rewards, the reset of the indices that need one when
  there are any, the events, and the observations, after which the host only adds
  noise. \<open>process_actions\<close> occurs once, \<open>apply_actions\<close> and the simulation step \<open>N\<close>
  times each, the last call into an abstraction is \<open>get_observations\<close>, and no call
  creates or updates the debug visualization.
\<close>

theorem step_order:
  assumes "\<forall>hist. length (fst (robot_get_dones (api e) hist)) = n
                \<and> length (snd (robot_get_dones (api e) hist)) = n
                \<and> length (fst (task_get_dones (api e) hist)) = n
                \<and> length (snd (task_get_dones (api e) hist)) = n"
    and "length (episode_length_buf e) = n"
  shows "\<exists>observations rewards early clean e'.
           step cls h actions e = Inr (observations, rewards, early, clean, e')
           \<and> calls e' =
               calls e
               @ [RobotProcessActions actions]
               @ concat (map (substep_calls h) [0..<skipped_steps h])
               @ [RobotGetDones, TaskGetDones, TaskComputeRewards]
               @ (if reset_env_ids h (early, clean) = [] then []
                  else new_calls e (reset_idx cls (Some (reset_env_ids h (early, clean))) e)
                       @ (if rtx_sensors h then [SceneRender] else []))
               @ (if has_events h then [EventManagerApply] else [])
               @ [TaskGetObservations]
               @ (if noise_required h then [AddNoise] else [])
           \<and> filter is_process_actions (new_calls e e') = [RobotProcessActions actions]
           \<and> length (filter (\<lambda>c. c = RobotApplyActions) (new_calls e e')) = skipped_steps h
           \<and> length (filter (\<lambda>c. c = SimStep) (new_calls e e')) = skipped_steps h
           \<and> last (filter is_abstraction_call (new_calls e e')) = TaskGetObservations
           \<and> filter is_debug_vis_call (new_calls e e') = []"
proof -
  from step_returns [OF assms] obtain observations rewards early clean e'
    where s: "step cls h actions e = Inr (observations, rewards, early, clean, e')"
    by blast
  have c: "calls e' = calls e @ step_calls cls h actions e (early, clean)"
    using s by (rule step_new_calls)
  have n: "new_calls e e' = step_calls cls h actions e (early, clean)"
    by (simp add: new_calls_def c)
  have "filter is_process_actions (new_calls e e') = [RobotProcessActions actions]"
    by (simp add: n step_calls_def substeps_filters reset_idx_new_calls_filters)
  moreover have "length (filter (\<lambda>c. c = RobotApplyActions) (new_calls e e')) = skipped_steps h"
    by (simp add: n step_calls_def substeps_filters reset_idx_new_calls_filters)
  moreover have "length (filter (\<lambda>c. c = SimStep) (new_calls e e')) = skipped_steps h"
    by (simp add: n step_calls_def substeps_filters reset_idx_new_calls_filters)
  moreover have "last (filter is_abstraction_call (new_calls e e')) = TaskGetObservations"
    by (simp add: n step_calls_def)
  moreover have "filter is_debug_vis_call (new_calls e e') = []"
    by (simp add: n step_calls_def substeps_filters reset_idx_new_calls_filters)
  ultimately show ?thesis
    using s c unfolding step_calls_def by blast
qed

theorem step_order_witness:
  "(case step LeatherbackPushBlockEnv example_host [[1, 0], [0, 0], [0, 1]] example_env of
      Inl err \<Rightarrow> False
    | Inr (observations, rewards, early, clean, e') \<Rightarrow>
        early = [True, False, False] \<and> clean = [False, True, True]
        \<and> calls e' =
            [RobotProcessActions [[1, 0], [0, 0], [0, 1]],
             RobotApplyActions, SceneWriteDataToSim, SimStep, SceneUpdate,
             RobotApplyActions, SceneWriteDataToSim, SimStep, SimRender, SceneUpdate,
             RobotGetDones, TaskGetDones, TaskComputeRewards,
             TaskResetLogs [0, 1, 2] [0, 5, 9], TaskComputeLogs,
             RobotResetLogs [0, 1, 2] [0, 5, 9], RobotComputeLogs,
             SuperResetIdx [0, 1, 2], TaskReset [0, 1, 2],
             TaskGetObservations])"
proof -
  have "\<forall>hist. length (fst (robot_get_dones (api example_env) hist)) = 3
                \<and> length (snd (robot_get_dones (api example_env) hist)) = 3
                \<and> length (fst (task_get_dones (api example_env) hist)) = 3
                \<and> length (snd (task_get_dones (api example_env) hist)) = 3"
    and "length (episode_length_buf example_env) = 3"
    by (simp_all add: example_env_def)
  from step_order [OF this, of LeatherbackPushBlockEnv example_host "[[1, 0], [0, 0], [0, 1]]"]
  obtain observations rewards early clean e' where
    s: "step LeatherbackPushBlockEnv example_host [[1, 0], [0, 0], [0, 1]] example_env
         = Inr (observations, rewards, early, clean, e')"
    and c: "calls e' =
               calls example_env
               @ [RobotProcessActions [[1, 0], [0, 0], [0, 1]]]
               @ concat (map (substep_calls example_host) [0..<skipped_steps example_host])
               @ [RobotGetDones, TaskGetDones, TaskComputeRewards]
               @ (if reset_env_ids example_host (early, clean) = [] then []
                  else new_calls example_env
                         (reset_idx LeatherbackPushBlockEnv
                            (Some (reset_env_ids example_host (early, clean))) example_env)
                       @ (if rtx_sensors example_host then [SceneRender] else []))
               @ (if has_events example_host then [EventManagerApply] else [])
               @ [TaskGetObservations]
               @ (if noise_required example_host then [AddNoise] else [])"
    by blast
  have d: "fst (get_dones (fold (substep example_host) [0..<skipped_steps example_host]
              (pre_physics_step [[1, 0], [0, 0], [0, 1]] example_env)))
             = Inr ([True, False, False], [False, True, True])"
    by (simp add: get_dones_def call_api_def example_env_def tensor_or_def tensor_ge_def
        fold_substep pre_physics_step_def)
  have ec: "early = [True, False, False] \<and> clean = [False, True, True]"
    using s d
    by (cases "get_dones (fold (substep example_host) [0..<skipped_steps example_host]
              (pre_physics_step [[1, 0], [0, 0], [0, 1]] example_env))")
       (simp add: step_def Let_def split: prod.splits)
  have sub: "concat (map (substep_calls example_host) [0..<skipped_steps example_host]) =
      [RobotApplyActions, SceneWriteDataToSim, SimStep, SceneUpdate,
       RobotApplyActions, SceneWriteDataToSim, SimStep, SimRender, SceneUpdate]"
    by code_simp
  have ids: "reset_env_ids example_host ([True, False, False], [False, True, True]) = [0, 1, 2]"
    by code_simp
  have rs: "new_calls example_env (Leatherback_reset_idx (Some [0, 1, 2]) example_env) =
      [TaskResetLogs [0, 1, 2] [0, 5, 9], TaskComputeLogs,
       RobotResetLogs [0, 1, 2] [0, 5, 9], RobotComputeLogs,
       SuperResetIdx [0, 1, 2], TaskReset [0, 1, 2]]"
    by (simp add: new_calls_def Leatherback_reset_idx_def call_api_def Let_def example_env_def)
  have flags: "\<not> rtx_sensors example_host" "\<not> has_events example_host"
    "\<not> noise_required example_host"
    by (simp_all add: example_host_def)
  have empty: "calls example_env = []"
    by (simp add: example_env_def)
  have "calls e' =
            [RobotProcessActions [[1, 0], [0, 0], [0, 1]],
             RobotApplyActions, SceneWriteDataToSim, SimStep, SceneUpdate,
             RobotApplyActions, SceneWriteDataToSim, SimStep, SimRender, SceneUpdate,
             RobotGetDones, TaskGetDones, TaskComputeRewards,
             TaskResetLogs [0, 1, 2] [0, 5, 9], TaskComputeLogs,
             RobotResetLogs [0, 1, 2] [0, 5, 9], RobotComputeLogs,
             SuperResetIdx [0, 1, 2], TaskReset [0, 1, 2],
             TaskGetObservations]"
    unfolding c using ec by (simp add: sub ids rs flags empty)
  then show ?thesis using s ec by simp
qed

end
